theory Spec2Isabelle
  imports Complex_Main
begin

section \<open>Data model\<close>

text \<open>
  The request bodies of \<^verbatim>\<open>main.py\<close>: the pydantic classes \<^verbatim>\<open>OrderCreate\<close> and
  \<^verbatim>\<open>UserCreate\<close>, field by field. Python's \<^verbatim>\<open>int\<close> is \<^typ>\<open>int\<close>, \<^verbatim>\<open>str\<close> is
  \<^typ>\<open>string\<close>, \<^verbatim>\<open>List[int]\<close> is \<^typ>\<open>int list\<close>.
\<close>

record OrderCreate =
  oc_user_id :: int
  oc_products :: "int list"
  oc_email :: string

record UserCreate =
  uc_username :: string
  uc_email :: string
  uc_password_hash :: string

text \<open>
  Modelled from the spec: the ORM classes \<^verbatim>\<open>User\<close>, \<^verbatim>\<open>Product\<close> and \<^verbatim>\<open>Order\<close> are
  imported from the module \<^verbatim>\<open>database\<close>, which is not part of the sources at hand. Their
  columns are the ones of the spec's data model: a user has a numeric id, a username, an
  email and a password hash; a product has an id and a price; an order has an id, the
  owning user's id, the sequence of product ids, an email and the total price. The
  constructor calls \<^verbatim>\<open>User(**user_data.dict())\<close> and
  \<^verbatim>\<open>Order(**order_data.dict(), total_price=total_price)\<close> of \<^verbatim>\<open>main.py\<close> fix the
  names of all columns but the ids. Prices are exact numbers here (\<^typ>\<open>real\<close>); the
  rounding of a floating-point column is outside the model.
\<close>

record User =
  u_id :: int
  u_username :: string
  u_email :: string
  u_password_hash :: string

record Product =
  p_id :: int
  p_price :: real

record Order =
  o_id :: int
  o_user_id :: int
  o_products :: "int list"
  o_email :: string
  o_total_price :: real

text \<open>
  The exceptions that leave an endpoint: \<^verbatim>\<open>HTTPException(status_code, detail)\<close>, raised by
  the code itself, and the exception of a \<^verbatim>\<open>db.commit()\<close> or of a query that the
  storage refuses.
\<close>

datatype error = HTTPException int string | StorageError

text \<open>
  Modelled from the spec: the session \<^verbatim>\<open>db\<close> comes from \<^verbatim>\<open>SessionLocal\<close> of the missing
  module \<^verbatim>\<open>database\<close>. A table is the list of its rows in storage order, and
  \<open>storage_ok\<close> says whether the storage accepts a commit (the spec's storage failure is
  the other case).
\<close>

record Database =
  users :: "User list"
  products :: "Product list"
  orders :: "Order list"
  storage_ok :: bool

text \<open>
  Modelled from the spec: ids are numeric and unique, and the storage assigns them at
  commit. The model takes one more than the largest id of the table (and 1 for an empty
  table), which no row of the table has.
\<close>

definition fresh_id :: "int list \<Rightarrow> int" where
  "fresh_id ids = fold max ids 0 + 1"

text \<open>\<^verbatim>\<open>class EmailSender\<close>: its constructor stores nothing.\<close>

datatype EmailSender = EmailSender

text \<open>
  A background task is the function handed to \<^verbatim>\<open>background_tasks.add_task\<close> together
  with its arguments: \<^verbatim>\<open>send_confirmation_email(order_id, email, email_sender)\<close> or
  \<^verbatim>\<open>process_payment(order_id)\<close>.
\<close>

datatype task =
    send_confirmation_email int string EmailSender
  | process_payment int

text \<open>The values of the dictionary \<^verbatim>\<open>log_data\<close>: a string or an integer.\<close>

datatype pyval = PyStr string | PyInt int

type_synonym pydict = "(string \<times> pyval) list"

text \<open>
  What \<^verbatim>\<open>create_order\<close> does to the world outside, in the order in which it does it: the
  commit of the order row with the given id, \<^verbatim>\<open>background_tasks.add_task\<close>, and
  \<^verbatim>\<open>producer.send(topic, value=...)\<close>.
\<close>

datatype effect =
    Commit int
  | AddTask task
  | ProducerSend string pydict

record World =
  db :: Database
  effects :: "effect list"

fun scheduled :: "effect list \<Rightarrow> task list" where
  "scheduled [] = []"
| "scheduled (AddTask t # es) = t # scheduled es"
| "scheduled (_ # es) = scheduled es"

fun sent :: "effect list \<Rightarrow> (string \<times> pydict) list" where
  "sent [] = []"
| "sent (ProducerSend tp v # es) = (tp, v) # sent es"
| "sent (_ # es) = sent es"

section \<open>The order workflow\<close>

definition KAFKA_TOPIC :: string where
  "KAFKA_TOPIC = ''logs''"

text \<open>Python's \<^verbatim>\<open>sum\<close>: start from 0 and add the elements from left to right.\<close>

definition py_sum :: "real list \<Rightarrow> real" where
  "py_sum xs = foldl (+) 0 xs"

text \<open>
  \<^verbatim>\<open>calculate_total_price(order_data, products)\<close> adds the prices of the list
  \<open>products\<close> it is given; it does not read \<open>order_data\<close>.
\<close>

definition calculate_total_price :: "OrderCreate \<Rightarrow> Product list \<Rightarrow> real" where
  "calculate_total_price order_data prods = py_sum (map p_price prods)"

text \<open>\<^verbatim>\<open>validate_user_input(order_data)\<close>: the body is \<^verbatim>\<open>pass\<close>, so it raises nothing.\<close>

definition validate_user_input :: "OrderCreate \<Rightarrow> error + unit" where
  "validate_user_input order_data = Inr ()"

text \<open>\<^verbatim>\<open>get_products(db)\<close>: \<^verbatim>\<open>db.query(Product).all()\<close>, every row of the product table.\<close>

definition get_products :: "Database \<Rightarrow> Product list" where
  "get_products d = products d"

text \<open>
  \<^verbatim>\<open>db.add(db_order); db.commit(); db.refresh(db_order)\<close> for the order built by
  \<^verbatim>\<open>Order(**order_data.dict(), total_price=total_price)\<close>: the commit either raises and
  leaves the table as it is, or appends the row under a fresh id; the refreshed
  object is the stored row.
\<close>

definition add_commit_order ::
  "OrderCreate \<Rightarrow> real \<Rightarrow> Database \<Rightarrow> (error + Order) \<times> Database" where
  "add_commit_order order_data total_price d =
     (if storage_ok d then
        let db_order = \<lparr>o_id = fresh_id (map o_id (orders d)),
                        o_user_id = oc_user_id order_data,
                        o_products = oc_products order_data,
                        o_email = oc_email order_data,
                        o_total_price = total_price\<rparr>
        in (Inr db_order, d\<lparr>orders := orders d @ [db_order]\<rparr>)
      else (Inl StorageError, d))"

definition add_task :: "task \<Rightarrow> World \<Rightarrow> World" where
  "add_task t w = w\<lparr>effects := effects w @ [AddTask t]\<rparr>"

definition producer_send :: "string \<Rightarrow> pydict \<Rightarrow> World \<Rightarrow> World" where
  "producer_send topic v w = w\<lparr>effects := effects w @ [ProducerSend topic v]\<rparr>"

text \<open>
  \<^verbatim>\<open>create_order\<close>, statement by statement. An exception ends the function where it is
  raised: the world keeps what was done before and nothing after happens.
\<close>

definition create_order ::
  "OrderCreate \<Rightarrow> Product list \<Rightarrow> EmailSender \<Rightarrow> World \<Rightarrow> (error + Order) \<times> World" where
  "create_order order_data prods email_sender w =
     (case validate_user_input order_data of
        Inl e \<Rightarrow> (Inl e, w)
      | Inr _ \<Rightarrow>
          let total_price = calculate_total_price order_data prods in
          (case add_commit_order order_data total_price (db w) of
             (Inl e, d') \<Rightarrow> (Inl e, w\<lparr>db := d'\<rparr>)
           | (Inr db_order, d') \<Rightarrow>
               let w1 = w\<lparr>db := d', effects := effects w @ [Commit (o_id db_order)]\<rparr>;
                   w2 = add_task (send_confirmation_email (o_id db_order)
                                    (oc_email order_data) email_sender) w1;
                   w3 = add_task (process_payment (o_id db_order)) w2;
                   log_data = [(''event'', PyStr ''order_created''),
                               (''order_id'', PyInt (o_id db_order))];
                   w4 = producer_send KAFKA_TOPIC log_data w3
               in (Inr db_order, w4)))"

text \<open>
  The route \<^verbatim>\<open>POST /orders/\<close>: the framework fills the parameters declared with
  \<^verbatim>\<open>Depends\<close>, so \<open>products\<close> is the result of \<^verbatim>\<open>get_products\<close> on the same
  database and \<open>email_sender\<close> is a new \<^verbatim>\<open>EmailSender()\<close>.
\<close>

definition post_orders :: "OrderCreate \<Rightarrow> World \<Rightarrow> (error + Order) \<times> World" where
  "post_orders order_data w = create_order order_data (get_products (db w)) EmailSender w"

section \<open>The user endpoints\<close>

text \<open>
  \<^verbatim>\<open>db.query(User).filter(User.id == user_id).first()\<close>: the first row of the user
  table with that id, or \<^verbatim>\<open>None\<close>.
\<close>

definition query_user_first :: "int \<Rightarrow> Database \<Rightarrow> User option" where
  "query_user_first user_id d = find (\<lambda>u. u_id u = user_id) (users d)"

text \<open>
  The storage engine is created in the missing module \<^verbatim>\<open>database\<close>, so it is a
  parameter of the query. For an offset and a limit that are not negative every engine
  skips the first \<open>offset\<close> rows and returns at most \<open>limit\<close> of the rest. For a negative
  number the engines fall into two kinds: SQLite reads a negative limit as no limit
  and a negative offset as 0; the others (PostgreSQL, MySQL) refuse the statement, and
  the query raises.
\<close>

datatype engine = SQLite | Refusing

text \<open>
  \<^verbatim>\<open>.offset(skip).limit(limit).all()\<close>: the two numbers go to the engine as they are,
  and the rows or the error are the engine's answer.
\<close>

definition offset_limit_all :: "engine \<Rightarrow> int \<Rightarrow> int \<Rightarrow> 'a list \<Rightarrow> error + 'a list" where
  "offset_limit_all eng skip limit rows =
     (case eng of
        SQLite \<Rightarrow>
          Inr (if limit < 0 then drop (nat skip) rows
               else take (nat limit) (drop (nat skip) rows))
      | Refusing \<Rightarrow>
          if skip < 0 \<or> limit < 0 then Inl StorageError
          else Inr (take (nat limit) (drop (nat skip) rows)))"

text \<open>
  \<^verbatim>\<open>get_users(skip: int = 0, limit: int = 10, db)\<close>: a query parameter that the
  request leaves out is \<open>None\<close> here and takes its default.
\<close>

definition get_users ::
  "engine \<Rightarrow> int option \<Rightarrow> int option \<Rightarrow> Database \<Rightarrow> error + User list" where
  "get_users eng skip limit d =
     offset_limit_all eng (case skip of None \<Rightarrow> 0 | Some s \<Rightarrow> s)
                          (case limit of None \<Rightarrow> 10 | Some l \<Rightarrow> l) (users d)"

text \<open>
  \<^verbatim>\<open>create_user\<close>: \<^verbatim>\<open>User(**user_data.dict())\<close>, then add, commit and refresh as for an
  order.
\<close>

definition create_user :: "UserCreate \<Rightarrow> Database \<Rightarrow> (error + User) \<times> Database" where
  "create_user user_data d =
     (if storage_ok d then
        let db_user = \<lparr>u_id = fresh_id (map u_id (users d)),
                       u_username = uc_username user_data,
                       u_email = uc_email user_data,
                       u_password_hash = uc_password_hash user_data\<rparr>
        in (Inr db_user, d\<lparr>users := users d @ [db_user]\<rparr>)
      else (Inl StorageError, d))"

definition get_user :: "int \<Rightarrow> Database \<Rightarrow> error + User" where
  "get_user user_id d =
     (case query_user_first user_id d of
        None \<Rightarrow> Inl (HTTPException 404 ''User not found'')
      | Some user \<Rightarrow> Inr user)"

text \<open>
  \<^verbatim>\<open>user_data.dict().items()\<close> lists the fields of \<^verbatim>\<open>UserCreate\<close> in the order of their
  declaration, and \<^verbatim>\<open>setattr(db_user, key, value)\<close> assigns the column of that name. The
  three names below are the only keys the loop of \<^verbatim>\<open>update_user\<close> meets.
\<close>

definition user_data_items :: "UserCreate \<Rightarrow> (string \<times> string) list" where
  "user_data_items user_data =
     [(''username'', uc_username user_data),
      (''email'', uc_email user_data),
      (''password_hash'', uc_password_hash user_data)]"

definition setattr_user :: "User \<Rightarrow> string \<times> string \<Rightarrow> User" where
  "setattr_user db_user kv =
     (if fst kv = ''username'' then db_user\<lparr>u_username := snd kv\<rparr>
      else if fst kv = ''email'' then db_user\<lparr>u_email := snd kv\<rparr>
      else if fst kv = ''password_hash'' then db_user\<lparr>u_password_hash := snd kv\<rparr>
      else db_user)"

text \<open>
  \<^verbatim>\<open>update_user\<close>: 404 when the query finds no row; otherwise the loop assigns every
  item, and the commit writes the changed object to the rows with its primary key
  (\<^verbatim>\<open>UPDATE ... WHERE id = ...\<close>), or raises and writes nothing.
\<close>

definition update_user :: "int \<Rightarrow> UserCreate \<Rightarrow> Database \<Rightarrow> (error + User) \<times> Database" where
  "update_user user_id user_data d =
     (case query_user_first user_id d of
        None \<Rightarrow> (Inl (HTTPException 404 ''User not found''), d)
      | Some db_user \<Rightarrow>
          let db_user' = foldl setattr_user db_user (user_data_items user_data) in
          if storage_ok d then
            (Inr db_user',
             d\<lparr>users := map (\<lambda>u. if u_id u = u_id db_user then db_user' else u) (users d)\<rparr>)
          else (Inl StorageError, d))"

text \<open>
  \<^verbatim>\<open>delete_user\<close>: 404 when the query finds no row; otherwise the commit deletes the
  rows with the object's primary key (\<^verbatim>\<open>DELETE ... WHERE id = ...\<close>), or raises and
  deletes nothing. The answer is the dictionary with the confirmation message.
\<close>

definition delete_user :: "int \<Rightarrow> Database \<Rightarrow> (error + pydict) \<times> Database" where
  "delete_user user_id d =
     (case query_user_first user_id d of
        None \<Rightarrow> (Inl (HTTPException 404 ''User not found''), d)
      | Some db_user \<Rightarrow>
          if storage_ok d then
            (Inr [(''message'', PyStr ''User deleted successfully'')],
             d\<lparr>users := filter (\<lambda>u. u_id u \<noteq> u_id db_user) (users d)\<rparr>)
          else (Inl StorageError, d))"

section \<open>Example data\<close>

text \<open>
  The scenario of the spec: user 1, products 10 and 11 at 5.00 and 7.50, and a third
  product that no order below asks for.
\<close>

definition scenario_db :: Database where
  "scenario_db =
     \<lparr>users = [\<lparr>u_id = 1, u_username = ''ann'', u_email = ''a@b.com'',
                u_password_hash = ''h1''\<rparr>],
      products = [\<lparr>p_id = 10, p_price = 5\<rparr>, \<lparr>p_id = 11, p_price = 7.5\<rparr>,
                  \<lparr>p_id = 12, p_price = 100\<rparr>],
      orders = [],
      storage_ok = True\<rparr>"

definition scenario_world :: World where
  "scenario_world = \<lparr>db = scenario_db, effects = []\<rparr>"

definition scenario_order :: OrderCreate where
  "scenario_order = \<lparr>oc_user_id = 1, oc_products = [10, 11], oc_email = ''a@b.com''\<rparr>"

definition other_email_order :: OrderCreate where
  "other_email_order = \<lparr>oc_user_id = 1, oc_products = [10, 11], oc_email = ''x@y.z''\<rparr>"

definition bad_order :: OrderCreate where
  "bad_order = \<lparr>oc_user_id = 7, oc_products = [], oc_email = ''not-an-email''\<rparr>"

definition empty_world :: World where
  "empty_world =
     \<lparr>db = \<lparr>users = [], products = [], orders = [], storage_ok = True\<rparr>, effects = []\<rparr>"

definition down_world :: World where
  "down_world = \<lparr>db = scenario_db\<lparr>storage_ok := False\<rparr>, effects = []\<rparr>"

definition two_users_db :: Database where
  "two_users_db =
     \<lparr>users = [\<lparr>u_id = 1, u_username = ''ann'', u_email = ''a@b.com'',
                u_password_hash = ''h1''\<rparr>,
               \<lparr>u_id = 2, u_username = ''bob'', u_email = ''bob@b.com'',
                u_password_hash = ''h2''\<rparr>],
      products = [],
      orders = [],
      storage_ok = True\<rparr>"

definition bob :: UserCreate where
  "bob = \<lparr>uc_username = ''bob'', uc_email = ''bob@b.com'', uc_password_hash = ''h2''\<rparr>"

lemmas scenario_defs =
  scenario_db_def scenario_world_def scenario_order_def other_email_order_def
  bad_order_def empty_world_def down_world_def two_users_db_def bob_def

lemmas workflow_defs =
  post_orders_def create_order_def validate_user_input_def calculate_total_price_def
  py_sum_def get_products_def add_commit_order_def fresh_id_def add_task_def
  producer_send_def KAFKA_TOPIC_def Let_def

lemmas user_defs =
  query_user_first_def get_users_def offset_limit_all_def create_user_def get_user_def
  user_data_items_def setattr_user_def update_user_def delete_user_def fresh_id_def Let_def

section \<open>Fresh ids and lookups\<close>

lemma fold_max_ge: "a \<le> fold max ids (a::int)"
  by (induction ids arbitrary: a) (auto intro: order_trans[OF max.cobounded2])

lemma fold_max_mem: "x \<in> set ids \<Longrightarrow> x \<le> fold max ids (a::int)"
proof (induction ids arbitrary: a)
  case Nil
  then show ?case by simp
next
  case (Cons y ys)
  show ?case
  proof (cases "x = y")
    case True
    have "y \<le> max y a" by simp
    also have "\<dots> \<le> fold max ys (max y a)" by (rule fold_max_ge)
    finally show ?thesis using True by simp
  next
    case False
    with Cons show ?thesis by simp
  qed
qed

lemma fresh_id_notin: "fresh_id ids \<notin> set ids"
  using fold_max_mem[of "fresh_id ids" ids 0] by (auto simp: fresh_id_def)








lemma scheduled_append: "scheduled (xs @ ys) = scheduled xs @ scheduled ys"
  by (induction xs rule: scheduled.induct) simp_all

lemma sent_append: "sent (xs @ ys) = sent xs @ sent ys"
  by (induction xs rule: sent.induct) simp_all

lemma py_sum_sum_list: "py_sum xs = sum_list xs"
proof -
  have "foldl (+) a xs = a + sum_list xs" for a :: real
    by (induction xs arbitrary: a) (simp_all add: add.assoc)
  from this[of 0] show ?thesis by (simp add: py_sum_def)
qed

section \<open>What a call of create_order returns\<close>

lemma create_order_fail:
  "\<not> storage_ok (db w) \<Longrightarrow> create_order order_data prods sender w = (Inl StorageError, w)"
  by (simp add: create_order_def validate_user_input_def add_commit_order_def)

lemma create_order_ok:
  "storage_ok (db w) \<Longrightarrow>
   create_order order_data prods sender w =
     (Inr \<lparr>o_id = fresh_id (map o_id (orders (db w))),
            o_user_id = oc_user_id order_data,
            o_products = oc_products order_data,
            o_email = oc_email order_data,
            o_total_price = sum_list (map p_price prods)\<rparr>,
      w\<lparr>db := (db w)\<lparr>orders := orders (db w) @
             [\<lparr>o_id = fresh_id (map o_id (orders (db w))),
               o_user_id = oc_user_id order_data,
               o_products = oc_products order_data,
               o_email = oc_email order_data,
               o_total_price = sum_list (map p_price prods)\<rparr>]\<rparr>,
        effects := effects w @
          [Commit (fresh_id (map o_id (orders (db w)))),
           AddTask (send_confirmation_email (fresh_id (map o_id (orders (db w))))
                      (oc_email order_data) sender),
           AddTask (process_payment (fresh_id (map o_id (orders (db w))))),
           ProducerSend ''logs'' [(''event'', PyStr ''order_created''),
                                 (''order_id'', PyInt (fresh_id (map o_id (orders (db w)))))]]\<rparr>)"
  by (simp add: create_order_def validate_user_input_def add_commit_order_def Let_def
        calculate_total_price_def py_sum_sum_list add_task_def producer_send_def
        KAFKA_TOPIC_def)

lemma create_order_Inr:
  assumes "create_order order_data prods sender w = (Inr db_order, w')"
  shows "storage_ok (db w)"
    and "db_order = \<lparr>o_id = fresh_id (map o_id (orders (db w))),
                      o_user_id = oc_user_id order_data,
                      o_products = oc_products order_data,
                      o_email = oc_email order_data,
                      o_total_price = sum_list (map p_price prods)\<rparr>"
    and "db w' = (db w)\<lparr>orders := orders (db w) @ [db_order]\<rparr>"
    and "effects w' = effects w @
          [Commit (o_id db_order),
           AddTask (send_confirmation_email (o_id db_order) (oc_email order_data) sender),
           AddTask (process_payment (o_id db_order)),
           ProducerSend ''logs'' [(''event'', PyStr ''order_created''),
                                 (''order_id'', PyInt (o_id db_order))]]"
proof -
  show ok: "storage_ok (db w)"
  proof (rule ccontr)
    assume "\<not> storage_ok (db w)"
    from create_order_fail[OF this, of order_data prods sender] assms show False by simp
  qed
  define row where "row = \<lparr>o_id = fresh_id (map o_id (orders (db w))),
                      o_user_id = oc_user_id order_data,
                      o_products = oc_products order_data,
                      o_email = oc_email order_data,
                      o_total_price = sum_list (map p_price prods)\<rparr>"
  define W where "W = w\<lparr>db := (db w)\<lparr>orders := orders (db w) @ [row]\<rparr>,
        effects := effects w @
          [Commit (o_id row),
           AddTask (send_confirmation_email (o_id row) (oc_email order_data) sender),
           AddTask (process_payment (o_id row)),
           ProducerSend ''logs'' [(''event'', PyStr ''order_created''),
                                 (''order_id'', PyInt (o_id row))]]\<rparr>"
  have "create_order order_data prods sender w = (Inr row, W)"
    using create_order_ok[OF ok, of order_data prods sender] by (simp add: W_def row_def)
  with assms have r: "db_order = row" and w: "w' = W" by simp_all
  show "db_order = \<lparr>o_id = fresh_id (map o_id (orders (db w))),
                      o_user_id = oc_user_id order_data,
                      o_products = oc_products order_data,
                      o_email = oc_email order_data,
                      o_total_price = sum_list (map p_price prods)\<rparr>"
    using r by (simp add: row_def)
  show "db w' = (db w)\<lparr>orders := orders (db w) @ [db_order]\<rparr>"
    by (simp add: w r W_def)
  show "effects w' = effects w @
          [Commit (o_id db_order),
           AddTask (send_confirmation_email (o_id db_order) (oc_email order_data) sender),
           AddTask (process_payment (o_id db_order)),
           ProducerSend ''logs'' [(''event'', PyStr ''order_created''),
                                 (''order_id'', PyInt (o_id db_order))]]"
    by (simp add: w r W_def)
qed

section \<open>The order workflow: total price, validation, ordering of effects\<close>

text \<open>
  C1. The claim: the order returned by \<^verbatim>\<open>create_order\<close> has a total price equal to the
  sum of the prices of exactly the products listed in the request. The code adds the
  prices of every row of the product table instead: in the scenario of the spec with a
  third product in the table, the order for products 10 and 11 (5.00 and 7.50, together
  12.50) is stored with the total 112.50.
\<close>

theorem post_orders_total_price_whole_table:
  "fst (post_orders scenario_order scenario_world) =
     Inr \<lparr>o_id = 1, o_user_id = 1, o_products = [10, 11], o_email = ''a@b.com'',
          o_total_price = 112.5\<rparr>
   \<and> sum_list (map p_price (filter (\<lambda>p. p_id p \<in> set (oc_products scenario_order))
                              (products (db scenario_world)))) = 12.5"
  by (simp add: workflow_defs scenario_defs)

text \<open>
  C2, as stated, fails: a request with an empty product list, a user id that no user
  has and an email without an @ is not rejected; its order is stored and returned.
\<close>

theorem create_order_validation_counterexample:
  "oc_products bad_order = []
   \<and> get_user (oc_user_id bad_order) (db empty_world) = Inl (HTTPException 404 ''User not found'')
   \<and> CHR ''@'' \<notin> set (oc_email bad_order)
   \<and> fst (post_orders bad_order empty_world) =
       Inr \<lparr>o_id = 1, o_user_id = 7, o_products = [], o_email = ''not-an-email'',
            o_total_price = 0\<rparr>
   \<and> orders (db (snd (post_orders bad_order empty_world))) =
       [\<lparr>o_id = 1, o_user_id = 7, o_products = [], o_email = ''not-an-email'',
         o_total_price = 0\<rparr>]"
  by (simp add: workflow_defs user_defs scenario_defs)

text \<open>
  C2, amended: \<^verbatim>\<open>create_order\<close> validates nothing. \<^verbatim>\<open>validate_user_input\<close> accepts every
  request, and \<^verbatim>\<open>create_order\<close> rejects no request with a validation or not-found
  error, whatever its product list, ids and email; when the storage accepts the
  commit, the order record of the request is appended to the order table.
\<close>

theorem create_order_no_validation:
  "validate_user_input order_data = Inr ()
   \<and> fst (create_order order_data prods sender w) \<noteq> Inl (HTTPException code detail)
   \<and> (storage_ok (db w) \<longrightarrow>
        (\<exists>db_order. orders (db (snd (create_order order_data prods sender w)))
                       = orders (db w) @ [db_order]
           \<and> o_user_id db_order = oc_user_id order_data
           \<and> o_products db_order = oc_products order_data
           \<and> o_email db_order = oc_email order_data))"
proof (cases "storage_ok (db w)")
  case True
  from True create_order_ok[OF True, of order_data prods sender] show ?thesis
    by (simp add: validate_user_input_def)
next
  case False
  from False create_order_fail[OF False, of order_data prods sender] show ?thesis
    by (simp add: validate_user_input_def)
qed

theorem create_order_no_validation_witness:
  "storage_ok (db empty_world)
   \<and> validate_user_input bad_order = Inr ()
   \<and> fst (create_order bad_order [] EmailSender empty_world)
       \<noteq> Inl (HTTPException 422 ''Unprocessable Entity'')
   \<and> (\<exists>db_order. orders (db (snd (create_order bad_order [] EmailSender empty_world)))
                     = [db_order]
         \<and> o_user_id db_order = 7 \<and> o_products db_order = []
         \<and> o_email db_order = ''not-an-email'')"
proof -
  have ok: "storage_ok (db empty_world)" by (simp add: scenario_defs)
  have none: "orders (db empty_world) = []" by (simp add: scenario_defs)
  from ok none
    create_order_no_validation[of bad_order "[]" EmailSender empty_world
      422 "''Unprocessable Entity''"]
  show ?thesis by (simp add: bad_order_def)
qed

text \<open>
  C3. The commit of the order comes before both \<^verbatim>\<open>add_task\<close> calls and before
  \<^verbatim>\<open>producer.send\<close>: a successful call adds exactly these four effects, in this order,
  for the id of the row it stored. When the storage refuses the commit, the call fails
  and the world is as before: no row, no task, no event.
\<close>

theorem create_order_commit_before_dispatch:
  "(\<not> storage_ok (db w) \<longrightarrow>
      create_order order_data prods sender w = (Inl StorageError, w))
   \<and> (storage_ok (db w) \<longrightarrow>
      (\<exists>db_order w'. create_order order_data prods sender w = (Inr db_order, w')
         \<and> db w' = (db w)\<lparr>orders := orders (db w) @ [db_order]\<rparr>
         \<and> effects w' = effects w @
              [Commit (o_id db_order),
               AddTask (send_confirmation_email (o_id db_order) (oc_email order_data) sender),
               AddTask (process_payment (o_id db_order)),
               ProducerSend KAFKA_TOPIC [(''event'', PyStr ''order_created''),
                                         (''order_id'', PyInt (o_id db_order))]]))"
  by (simp add: create_order_fail create_order_ok KAFKA_TOPIC_def)

theorem create_order_commit_before_dispatch_witness:
  "\<not> storage_ok (db down_world)
   \<and> create_order scenario_order [] EmailSender down_world = (Inl StorageError, down_world)
   \<and> scheduled (effects down_world) = [] \<and> sent (effects down_world) = []
   \<and> storage_ok (db scenario_world)
   \<and> effects (snd (create_order scenario_order [] EmailSender scenario_world)) =
        [Commit 1,
         AddTask (send_confirmation_email 1 ''a@b.com'' EmailSender),
         AddTask (process_payment 1),
         ProducerSend ''logs'' [(''event'', PyStr ''order_created''), (''order_id'', PyInt 1)]]"
proof -
  have down: "\<not> storage_ok (db down_world)" by (simp add: scenario_defs)
  have ok: "storage_ok (db scenario_world)" by (simp add: scenario_defs)
  have quiet: "scheduled (effects down_world) = [] \<and> sent (effects down_world) = []"
    by (simp add: scenario_defs)
  have ev: "fst (create_order scenario_order [] EmailSender scenario_world) =
      Inr \<lparr>o_id = 1, o_user_id = 1, o_products = [10, 11], o_email = ''a@b.com'',
           o_total_price = 0\<rparr>"
    by (simp add: workflow_defs scenario_defs)
  from ok create_order_commit_before_dispatch[of scenario_world scenario_order "[]" EmailSender]
  obtain db_order w' where
    eq: "create_order scenario_order [] EmailSender scenario_world = (Inr db_order, w')" and
    eff: "effects w' = effects scenario_world @
              [Commit (o_id db_order),
               AddTask (send_confirmation_email (o_id db_order) (oc_email scenario_order)
                          EmailSender),
               AddTask (process_payment (o_id db_order)),
               ProducerSend KAFKA_TOPIC [(''event'', PyStr ''order_created''),
                                         (''order_id'', PyInt (o_id db_order))]]"
    by blast
  from ev eq have "o_id db_order = 1" by simp
  with eff eq
  have run: "effects (snd (create_order scenario_order [] EmailSender scenario_world)) =
        [Commit 1,
         AddTask (send_confirmation_email 1 ''a@b.com'' EmailSender),
         AddTask (process_payment 1),
         ProducerSend ''logs'' [(''event'', PyStr ''order_created''), (''order_id'', PyInt 1)]]"
    by (simp add: scenario_defs KAFKA_TOPIC_def)
  from down create_order_commit_before_dispatch[of down_world scenario_order "[]" EmailSender]
  have "create_order scenario_order [] EmailSender down_world = (Inl StorageError, down_world)"
    by simp
  with down ok quiet run show ?thesis by simp
qed

text \<open>
  C4. A successful \<^verbatim>\<open>create_order\<close> sends exactly one message: to the topic
  \<^verbatim>\<open>logs\<close>, with the value \<^verbatim>\<open>{'event': 'order_created', 'order_id': id}\<close> for the id of
  the order it has just stored, an id that no earlier order has. (The producer's
  \<^verbatim>\<open>value_serializer\<close> writes the dictionary as a JSON object.)
\<close>

theorem create_order_publishes_one_event:
  assumes "create_order order_data prods sender w = (Inr db_order, w')"
  shows "sent (effects w') = sent (effects w) @
           [(KAFKA_TOPIC, [(''event'', PyStr ''order_created''),
                           (''order_id'', PyInt (o_id db_order))])]
         \<and> KAFKA_TOPIC = ''logs''
         \<and> orders (db w') = orders (db w) @ [db_order]
         \<and> o_id db_order \<notin> o_id ` set (orders (db w))"
proof -
  note r = create_order_Inr[OF assms]
  have "o_id db_order \<notin> o_id ` set (orders (db w))"
    using fresh_id_notin[of "map o_id (orders (db w))"] r(2) by simp
  then show ?thesis
    by (simp add: r(3) r(4) sent_append KAFKA_TOPIC_def)
qed

theorem create_order_publishes_one_event_witness:
  "create_order scenario_order (products scenario_db) EmailSender scenario_world =
     (Inr \<lparr>o_id = 1, o_user_id = 1, o_products = [10, 11], o_email = ''a@b.com'',
           o_total_price = 112.5\<rparr>,
      snd (create_order scenario_order (products scenario_db) EmailSender scenario_world))
   \<and> sent (effects (snd (create_order scenario_order (products scenario_db) EmailSender
                            scenario_world))) =
       [(''logs'', [(''event'', PyStr ''order_created''), (''order_id'', PyInt 1)])]"
proof -
  have run: "create_order scenario_order (products scenario_db) EmailSender scenario_world =
     (Inr \<lparr>o_id = 1, o_user_id = 1, o_products = [10, 11], o_email = ''a@b.com'',
           o_total_price = 112.5\<rparr>,
      snd (create_order scenario_order (products scenario_db) EmailSender scenario_world))"
    by (simp add: workflow_defs scenario_defs)
  have "sent (effects scenario_world) = []" by (simp add: scenario_defs)
  with create_order_publishes_one_event[OF run] run show ?thesis
    by (simp add: KAFKA_TOPIC_def)
qed

text \<open>
  C5. A successful \<^verbatim>\<open>create_order\<close> schedules exactly two background tasks: the
  confirmation email with the created order's id and the order's email (and the email
  sender that does the sending), and the payment processing with the created order's id.
\<close>

theorem create_order_schedules_two_tasks:
  assumes "create_order order_data prods sender w = (Inr db_order, w')"
  shows "scheduled (effects w') = scheduled (effects w) @
           [send_confirmation_email (o_id db_order) (o_email db_order) sender,
            process_payment (o_id db_order)]
         \<and> orders (db w') = orders (db w) @ [db_order]"
proof -
  note r = create_order_Inr[OF assms]
  have "o_email db_order = oc_email order_data" using r(2) by simp
  then show ?thesis by (simp add: r(3) r(4) scheduled_append)
qed

theorem create_order_schedules_two_tasks_witness:
  "create_order scenario_order (products scenario_db) EmailSender scenario_world =
     (Inr \<lparr>o_id = 1, o_user_id = 1, o_products = [10, 11], o_email = ''a@b.com'',
           o_total_price = 112.5\<rparr>,
      snd (create_order scenario_order (products scenario_db) EmailSender scenario_world))
   \<and> scheduled (effects (snd (create_order scenario_order (products scenario_db) EmailSender
                                 scenario_world))) =
       [send_confirmation_email 1 ''a@b.com'' EmailSender, process_payment 1]"
proof -
  have run: "create_order scenario_order (products scenario_db) EmailSender scenario_world =
     (Inr \<lparr>o_id = 1, o_user_id = 1, o_products = [10, 11], o_email = ''a@b.com'',
           o_total_price = 112.5\<rparr>,
      snd (create_order scenario_order (products scenario_db) EmailSender scenario_world))"
    by (simp add: workflow_defs scenario_defs)
  have "scheduled (effects scenario_world) = []" by (simp add: scenario_defs)
  with create_order_schedules_two_tasks[OF run] run show ?thesis by simp
qed

text \<open>
  C6, as stated, fails: user 1 has the email \<^verbatim>\<open>a@b.com\<close>, the request for user 1 gives
  the email \<^verbatim>\<open>x@y.z\<close>, and the stored order has the email of the request.
\<close>

theorem order_email_counterexample:
  "map_sum id u_email (get_user (oc_user_id other_email_order) (db scenario_world))
     = Inr ''a@b.com''
   \<and> map_sum id o_email (fst (post_orders other_email_order scenario_world)) = Inr ''x@y.z''
   \<and> map_sum id o_email (fst (post_orders other_email_order scenario_world))
       \<noteq> map_sum id u_email (get_user (oc_user_id other_email_order) (db scenario_world))"
  by (simp add: workflow_defs user_defs scenario_defs)

text \<open>
  C6, amended: the email stored on a created order is the email of the request, and its
  user id is the user id of the request. The user table is not read: the same request
  gives the same order whatever the users are.
\<close>

theorem order_email_from_request:
  assumes "create_order order_data prods sender w = (Inr db_order, w')"
  shows "o_email db_order = oc_email order_data
         \<and> o_user_id db_order = oc_user_id order_data
         \<and> fst (create_order order_data prods sender (w\<lparr>db := (db w)\<lparr>users := us\<rparr>\<rparr>))
             = Inr db_order"
proof -
  note r = create_order_Inr[OF assms]
  have "storage_ok (db (w\<lparr>db := (db w)\<lparr>users := us\<rparr>\<rparr>))" using r(1) by simp
  from create_order_ok[OF this, of order_data prods sender] r(2)
  show ?thesis by simp
qed

theorem order_email_from_request_witness:
  "create_order other_email_order (products scenario_db) EmailSender scenario_world =
     (Inr \<lparr>o_id = 1, o_user_id = 1, o_products = [10, 11], o_email = ''x@y.z'',
           o_total_price = 112.5\<rparr>,
      snd (create_order other_email_order (products scenario_db) EmailSender scenario_world))
   \<and> oc_email other_email_order = ''x@y.z''
   \<and> fst (create_order other_email_order (products scenario_db) EmailSender
            (scenario_world\<lparr>db := (db scenario_world)\<lparr>users := []\<rparr>\<rparr>))
       = Inr \<lparr>o_id = 1, o_user_id = 1, o_products = [10, 11], o_email = ''x@y.z'',
              o_total_price = 112.5\<rparr>"
proof -
  have run: "create_order other_email_order (products scenario_db) EmailSender scenario_world =
     (Inr \<lparr>o_id = 1, o_user_id = 1, o_products = [10, 11], o_email = ''x@y.z'',
           o_total_price = 112.5\<rparr>,
      snd (create_order other_email_order (products scenario_db) EmailSender scenario_world))"
    by (simp add: workflow_defs scenario_defs)
  from order_email_from_request[OF run, of "[]"] run show ?thesis
    by (simp add: scenario_defs)
qed

section \<open>The user endpoints: round trip, update, not found, paging\<close>








text \<open>
  C10, as stated, fails: a call may carry a negative limit, and then the answer is not
  the table cut to at most \<open>limit\<close> rows. With limit -1 on a table of two users, SQLite
  returns both rows and an engine that refuses negative numbers raises; dropping 0 and
  taking at most -1 rows would give no row.
\<close>

theorem get_users_negative_limit_counterexample:
  "get_users SQLite (Some 0) (Some (- 1)) two_users_db = Inr (users two_users_db)
   \<and> length (users two_users_db) = 2
   \<and> get_users Refusing (Some 0) (Some (- 1)) two_users_db = Inl StorageError
   \<and> take (nat (- 1)) (drop (nat 0) (users two_users_db)) = []"
  by (simp add: get_users_def offset_limit_all_def two_users_db_def)

text \<open>
  C10, amended: for a skip and a limit that are not negative, \<^verbatim>\<open>get_users\<close> returns,
  on every engine, the user table without its first \<open>skip\<close> rows, cut to at most
  \<open>limit\<close> rows. A parameter that is left out counts as 0 for skip and as 10 for limit,
  so a call without parameters returns the first rows of the table, at most 10.
\<close>

theorem get_users_offset_limit:
  "(0 \<le> skip \<and> 0 \<le> limit \<longrightarrow>
      (\<exists>us. get_users eng (Some skip) (Some limit) d = Inr us
         \<and> us = take (nat limit) (drop (nat skip) (users d))
         \<and> length us \<le> nat limit
         \<and> length us = min (nat limit) (length (users d) - nat skip)
         \<and> (\<forall>k < length us. us ! k = users d ! (nat skip + k))))
   \<and> get_users eng None None d = get_users eng (Some 0) (Some 10) d
   \<and> get_users eng None (Some limit) d = get_users eng (Some 0) (Some limit) d
   \<and> get_users eng (Some skip) None d = get_users eng (Some skip) (Some 10) d
   \<and> (\<exists>us. get_users eng None None d = Inr us \<and> us = take 10 (users d) \<and> length us \<le> 10)"
  by (cases eng) (auto simp: get_users_def offset_limit_all_def min.commute)

theorem get_users_offset_limit_witness:
  "(0::int) \<le> 1 \<and> (0::int) \<le> 1
   \<and> get_users SQLite (Some 1) (Some 1) two_users_db =
       Inr [\<lparr>u_id = 2, u_username = ''bob'', u_email = ''bob@b.com'', u_password_hash = ''h2''\<rparr>]
   \<and> get_users Refusing (Some 0) (Some 1) two_users_db =
       Inr [\<lparr>u_id = 1, u_username = ''ann'', u_email = ''a@b.com'', u_password_hash = ''h1''\<rparr>]
   \<and> get_users Refusing None None two_users_db = Inr (users two_users_db)"
proof -
  have u: "users two_users_db =
      [\<lparr>u_id = 1, u_username = ''ann'', u_email = ''a@b.com'', u_password_hash = ''h1''\<rparr>,
       \<lparr>u_id = 2, u_username = ''bob'', u_email = ''bob@b.com'', u_password_hash = ''h2''\<rparr>]"
    by (simp add: two_users_db_def)
  from get_users_offset_limit[of 1 1 SQLite two_users_db]
       get_users_offset_limit[of 0 1 Refusing two_users_db]
       get_users_offset_limit[of 0 10 Refusing two_users_db] u
  show ?thesis by simp
qed

end
